theory Spec2Isabelle
  imports Complex_Main "HOL-Library.Monad_Syntax" "HOL-Library.State_Monad"
begin

section \<open>The portfolio plugin: numbers, strings and colours\<close>

text \<open>
  The program is one script, \<^verbatim>\<open>src/figma-plugin/code.js\<close>. It computes positions and
  sizes arithmetically and hands node creation to a host object, \<^verbatim>\<open>figma\<close>.

  Numbers. A JavaScript number that the layout computes is modelled as an exact
  \<^typ>\<open>real\<close>: every literal of the script is a small integer or a short decimal, and
  the only operations are \<open>+\<close>, \<open>-\<close>, \<open>*\<close>, \<open>/\<close> by a non-zero literal,
  \<^verbatim>\<open>Math.round\<close> and \<^verbatim>\<open>Math.max\<close>. Rounding of IEEE doubles is not modelled.
  Only the colour helper can produce \<^verbatim>\<open>NaN\<close> (from \<^verbatim>\<open>parseInt\<close>), so its
  results have a type of their own.

  Strings. A string is a \<^typ>\<open>string\<close>; the characters the script inspects (the
  argument of \<^verbatim>\<open>rgb\<close>) are ASCII, one \<^typ>\<open>char\<close> per code unit. Labels and
  copy are opaque to the script, and their non-ASCII characters (the dash) are
  carried as UTF-8 bytes.
\<close>

datatype jsnum = NaN | Num real

text \<open>\<^verbatim>\<open>Math.round\<close>: the nearest integer, ties towards \<open>+\<infinity>\<close>.\<close>

definition Math_round :: "real \<Rightarrow> real" where
  "Math_round v = of_int \<lfloor>v + 1 / 2\<rfloor>"

text \<open>
  \<^verbatim>\<open>str.slice(from, to)\<close> for the non-negative literal indices the script uses: both
  are clamped to the length, and an empty span gives the empty string.
\<close>

definition slice :: "string \<Rightarrow> nat \<Rightarrow> nat \<Rightarrow> string" where
  "slice str from to = take (to - from) (drop from str)"

text \<open>
  \<^verbatim>\<open>parseInt(str, 16)\<close> after ECMAScript: skip leading white space, read an optional
  sign, strip an optional \<^verbatim>\<open>0x\<close>/\<^verbatim>\<open>0X\<close>, then take the longest prefix of hexadecimal
  digits. No digit at all gives \<^verbatim>\<open>NaN\<close>; what follows the digits is ignored.
  The white space recognised is the ASCII one (TAB, LF, VT, FF, CR, SP).
\<close>

definition is_white_space :: "char \<Rightarrow> bool" where
  "is_white_space c = (c \<in> set [CHR 0x09, CHR 0x0A, CHR 0x0B, CHR 0x0C, CHR 0x0D, CHR 0x20])"

definition hex_digit :: "char \<Rightarrow> nat option" where
  "hex_digit c =
     (let k = (of_char c :: nat) in
      if 48 \<le> k \<and> k \<le> 57 then Some (k - 48)
      else if 97 \<le> k \<and> k \<le> 102 then Some (k - 87)
      else if 65 \<le> k \<and> k \<le> 70 then Some (k - 55)
      else None)"

definition digit_value :: "char \<Rightarrow> nat" where
  "digit_value c = (case hex_digit c of Some v \<Rightarrow> v | None \<Rightarrow> 0)"

definition hex_value :: "string \<Rightarrow> nat" where
  "hex_value Z = foldl (\<lambda>acc c. 16 * acc + digit_value c) 0 Z"

definition parseInt16 :: "string \<Rightarrow> jsnum" where
  "parseInt16 str =
     (let S = dropWhile is_white_space str;
          sign = (if S \<noteq> [] \<and> hd S = CHR ''-'' then - 1 else 1 :: real);
          S1 = (if S \<noteq> [] \<and> (hd S = CHR ''+'' \<or> hd S = CHR ''-'') then tl S else S);
          S2 = (if take 2 S1 = ''0x'' \<or> take 2 S1 = ''0X'' then drop 2 S1 else S1);
          Z = takeWhile (\<lambda>c. hex_digit c \<noteq> None) S2
      in if Z = [] then NaN else Num (sign * of_nat (hex_value Z)))"

text \<open>Division of a JavaScript number by a finite non-zero literal.\<close>

fun js_divide :: "jsnum \<Rightarrow> real \<Rightarrow> jsnum" where
  "js_divide NaN d = NaN"
| "js_divide (Num v) d = Num (v / d)"

subsection \<open>Colour helpers\<close>

record color =
  chan_r :: jsnum
  chan_g :: jsnum
  chan_b :: jsnum

text \<open>
  \<^verbatim>\<open>rgb(hex)\<close>, lines 18 to 24: three slices, each parsed in base 16 and divided by
  255. There is no check of the argument and no \<^verbatim>\<open>throw\<close>.
\<close>

definition rgb :: "string \<Rightarrow> color" where
  "rgb hex =
     \<lparr> chan_r = js_divide (parseInt16 (slice hex 1 3)) 255,
       chan_g = js_divide (parseInt16 (slice hex 3 5)) 255,
       chan_b = js_divide (parseInt16 (slice hex 5 7)) 255 \<rparr>"

text \<open>
  The shape the specification asks of a colour string: \<^verbatim>\<open>#\<close> followed by exactly six
  hexadecimal digits.
\<close>

definition is_hex_color :: "string \<Rightarrow> bool" where
  "is_hex_color str =
     (length str = 7 \<and> hd str = CHR ''#'' \<and> list_all (\<lambda>c. hex_digit c \<noteq> None) (tl str))"

text \<open>
  The conversion as the specification words it (section 4.1): a malformed string
  fails with \<^verbatim>\<open>InvalidColorFormat\<close>, a well-formed one gives the three channels, each
  the two-digit value over 255.
\<close>

datatype color_error = InvalidColorFormat

definition pair_value :: "string \<Rightarrow> nat \<Rightarrow> real" where
  "pair_value str i = of_nat (16 * digit_value (str ! i) + digit_value (str ! (i + 1))) / 255"

definition parseHexColor :: "string \<Rightarrow> color_error + color" where
  "parseHexColor str =
     (if is_hex_color str
      then Inr \<lparr> chan_r = Num (pair_value str 1),
                 chan_g = Num (pair_value str 3),
                 chan_b = Num (pair_value str 5) \<rparr>
      else Inl InvalidColorFormat)"

section \<open>The host\<close>

text \<open>
  Every node the script creates lives in the host, and the script keeps references to
  nodes and changes them after they have been appended to a parent. The model is
  therefore a store: a node reference is a number, \<open>nodes\<close> maps it to the node's
  properties, and a frame holds the references of its children.
\<close>

record paint =
  paint_type :: string
  paint_color :: color
  paint_opacity :: "real option"

record font_name =
  family :: string
  weight :: "string option"
  style :: string

record length_px =
  amount :: real
  unit_name :: string

datatype node_type = RECTANGLE | FRAME | TEXT

record node =
  node_type :: node_type
  name :: string
  pos_x :: real
  pos_y :: real
  width :: real
  height :: real
  rotation :: real
  fills :: "paint list"
  strokes :: "paint list"
  strokeWeight :: real
  strokeAlign :: string
  cornerRadius :: real
  clipsContent :: bool
  children :: "nat list"
  fontName :: font_name
  fontSize :: real
  letterSpacing :: length_px
  lineHeight :: "length_px option"
  textAlignHorizontal :: string
  textDecoration :: string
  textAutoResize :: string
  characters :: string

datatype js_error = Error (message: string)

text \<open>
  The \<^verbatim>\<open>figma\<close> object. The first group of fields is the document and what the script
  did to it; \<open>thrown\<close> holds the exception that aborted the script, if any; the last
  group is the host's own behaviour, which the script never changes and about which
  nothing is assumed:
  \<^item> \<open>fault k\<close> is the message of the error the host raises at the \<open>k\<close>-th request it
    receives, if it raises one there;
  \<^item> \<open>text_size\<close> is the size the host gives a text from its content, font, size,
    spacing, line height and, when the width is fixed, that width;
  \<^item> \<open>new_rectangle\<close>, \<open>new_frame\<close>, \<open>new_text\<close> are the nodes the host creates (their
    default properties); a created node has the type asked for and no children.
\<close>

record figma =
  nodes :: "nat \<Rightarrow> node"
  next_id :: nat
  page_children :: "nat list"
  loaded_fonts :: "font_name list"
  viewport :: "nat list"
  closed_with :: "string list"
  thrown :: "js_error option"
  calls :: nat
  fault :: "nat \<Rightarrow> string option"
  text_size :: "string \<Rightarrow> font_name \<Rightarrow> real \<Rightarrow> length_px \<Rightarrow> length_px option
                  \<Rightarrow> real option \<Rightarrow> real \<times> real"
  new_rectangle :: node
  new_frame :: node
  new_text :: node

abbreviation return :: "'a \<Rightarrow> (figma, 'a) state" where
  "return \<equiv> State_Monad.return"

text \<open>
  A request to the host. Once an exception is pending nothing more happens: the
  statements after a \<^verbatim>\<open>throw\<close> are not executed, so they leave the host as it is (and
  the values they would have computed are never observed). Otherwise the host either
  raises its error for this request, or carries the request out.
\<close>

definition request :: "(figma \<Rightarrow> 'a \<times> figma) \<Rightarrow> (figma, 'a) state" where
  "request eff = State (\<lambda>fg.
     if thrown fg \<noteq> None then (fst (eff fg), fg)
     else case fault fg (calls fg) of
       Some msg \<Rightarrow> (fst (eff fg), fg\<lparr>thrown := Some (Error msg), calls := calls fg + 1\<rparr>)
     | None \<Rightarrow> (case eff fg of (v, fg') \<Rightarrow> (v, fg'\<lparr>calls := calls fg' + 1\<rparr>)))"

definition create :: "node_type \<Rightarrow> (figma \<Rightarrow> node) \<Rightarrow> (figma, nat) state" where
  "create ty proto = request (\<lambda>fg.
     (next_id fg,
      fg\<lparr>nodes := (nodes fg)(next_id fg := (proto fg)\<lparr>node_type := ty, children := []\<rparr>),
         next_id := next_id fg + 1\<rparr>))"

definition createRectangle :: "(figma, nat) state" where
  "createRectangle = create RECTANGLE new_rectangle"

definition createFrame :: "(figma, nat) state" where
  "createFrame = create FRAME new_frame"

definition createText :: "(figma, nat) state" where
  "createText = create TEXT new_text"

text \<open>\<^verbatim>\<open>node.prop = v\<close>: the assignment is a request; \<open>upd\<close> is the field update.\<close>

definition assign :: "nat \<Rightarrow> (node \<Rightarrow> node) \<Rightarrow> (figma, unit) state" where
  "assign i upd = request (\<lambda>fg. ((), fg\<lparr>nodes := (nodes fg)(i := upd (nodes fg i))\<rparr>))"

text \<open>
  \<^verbatim>\<open>node.characters = content\<close>. The host lays the text out when it receives its
  characters: with \<^verbatim>\<open>WIDTH_AND_HEIGHT\<close> both dimensions follow the content, with
  \<^verbatim>\<open>HEIGHT\<close> the width stays and the height follows the wrapped content. (The script
  sets every property that the layout depends on before the characters.)
\<close>

definition relayout ::
  "(string \<Rightarrow> font_name \<Rightarrow> real \<Rightarrow> length_px \<Rightarrow> length_px option \<Rightarrow> real option \<Rightarrow> real \<times> real)
   \<Rightarrow> node \<Rightarrow> node" where
  "relayout sizer n =
     (if textAutoResize n = ''WIDTH_AND_HEIGHT'' then
        n\<lparr>width := fst (sizer (characters n) (fontName n) (fontSize n)
                          (letterSpacing n) (lineHeight n) None),
          height := snd (sizer (characters n) (fontName n) (fontSize n)
                          (letterSpacing n) (lineHeight n) None)\<rparr>
      else if textAutoResize n = ''HEIGHT'' then
        n\<lparr>height := snd (sizer (characters n) (fontName n) (fontSize n)
                          (letterSpacing n) (lineHeight n) (Some (width n)))\<rparr>
      else n)"

definition set_characters :: "nat \<Rightarrow> string \<Rightarrow> (figma, unit) state" where
  "set_characters i content = request (\<lambda>fg.
     ((), fg\<lparr>nodes := (nodes fg)(i :=
             relayout (text_size fg) ((nodes fg i)\<lparr>characters := content\<rparr>))\<rparr>))"

definition resize :: "nat \<Rightarrow> real \<Rightarrow> real \<Rightarrow> (figma, unit) state" where
  "resize i w h = assign i (\<lambda>n. n\<lparr>width := w, height := h\<rparr>)"

definition appendChild :: "nat \<Rightarrow> nat \<Rightarrow> (figma, unit) state" where
  "appendChild parent child = request (\<lambda>fg.
     ((), fg\<lparr>nodes := (nodes fg)(parent :=
             (nodes fg parent)\<lparr>children := children (nodes fg parent) @ [child]\<rparr>)\<rparr>))"

text \<open>Reading a property of a node, \<^verbatim>\<open>node.prop\<close>.\<close>

definition read :: "nat \<Rightarrow> (node \<Rightarrow> 'a) \<Rightarrow> (figma, 'a) state" where
  "read i sel = State (\<lambda>fg. (sel (nodes fg i), fg))"

definition page_appendChild :: "nat \<Rightarrow> (figma, unit) state" where
  "page_appendChild child = request (\<lambda>fg.
     ((), fg\<lparr>page_children := page_children fg @ [child]\<rparr>))"

definition loadFontAsync :: "font_name \<Rightarrow> (figma, unit) state" where
  "loadFontAsync f = request (\<lambda>fg. ((), fg\<lparr>loaded_fonts := loaded_fonts fg @ [f]\<rparr>))"

definition scrollAndZoomIntoView :: "nat list \<Rightarrow> (figma, unit) state" where
  "scrollAndZoomIntoView ns = request (\<lambda>fg. ((), fg\<lparr>viewport := ns\<rparr>))"

definition closePlugin :: "string \<Rightarrow> (figma, unit) state" where
  "closePlugin msg = request (\<lambda>fg. ((), fg\<lparr>closed_with := closed_with fg @ [msg]\<rparr>))"

section \<open>The script\<close>

subsection \<open>Helpers, lines 10 to 129\<close>

fun loadFonts :: "string list \<Rightarrow> (figma, unit) state" where
  "loadFonts [] = return ()"
| "loadFonts (variant # variants) = do {
     loadFontAsync \<lparr> family = ''Inter'', weight = None, style = variant \<rparr>;
     loadFonts variants
   }"

definition loadAllFonts :: "(figma, unit) state" where
  "loadAllFonts = loadFonts [''Regular'', ''Light'', ''Medium'', ''SemiBold'', ''Bold'']"

definition fill :: "string \<Rightarrow> real \<Rightarrow> paint list" where
  "fill hex opacity =
     [\<lparr> paint_type = ''SOLID'', paint_color = rgb hex, paint_opacity = Some opacity \<rparr>]"

definition noFill :: "paint list" where
  "noFill = []"

text \<open>
  JavaScript truthiness of the optional arguments: \<^verbatim>\<open>null\<close> is \<open>None\<close>; a number is
  falsy when it is zero, a string when it is empty.
\<close>

definition truthy_num :: "real option \<Rightarrow> bool" where
  "truthy_num v = (case v of None \<Rightarrow> False | Some d \<Rightarrow> d \<noteq> 0)"

definition truthy_str :: "string option \<Rightarrow> bool" where
  "truthy_str v = (case v of None \<Rightarrow> False | Some str \<Rightarrow> str \<noteq> [])"

definition rect ::
  "nat \<Rightarrow> real \<Rightarrow> real \<Rightarrow> real \<Rightarrow> real \<Rightarrow> string \<Rightarrow> real \<Rightarrow> string \<Rightarrow> (figma, nat) state" where
  "rect parent x y w h hex opacity nm = do {
     r \<leftarrow> createRectangle;
     assign r (\<lambda>n. n\<lparr>name := nm\<rparr>);
     assign r (\<lambda>n. n\<lparr>pos_x := x\<rparr>);
     assign r (\<lambda>n. n\<lparr>pos_y := y\<rparr>);
     resize r w h;
     assign r (\<lambda>n. n\<lparr>fills := fill hex opacity\<rparr>);
     appendChild parent r;
     return r
   }"

definition frame ::
  "nat option \<Rightarrow> real \<Rightarrow> real \<Rightarrow> real \<Rightarrow> real \<Rightarrow> string option \<Rightarrow> string \<Rightarrow> (figma, nat) state" where
  "frame parent x y w h hex nm = do {
     f \<leftarrow> createFrame;
     assign f (\<lambda>n. n\<lparr>name := nm\<rparr>);
     assign f (\<lambda>n. n\<lparr>pos_x := x\<rparr>);
     assign f (\<lambda>n. n\<lparr>pos_y := y\<rparr>);
     resize f w h;
     assign f (\<lambda>n. n\<lparr>fills := (if truthy_str hex then fill (the hex) 1 else noFill)\<rparr>);
     assign f (\<lambda>n. n\<lparr>clipsContent := False\<rparr>);
     (case parent of Some pr \<Rightarrow> appendChild pr f | None \<Rightarrow> return ());
     return f
   }"

text \<open>The options of \<^verbatim>\<open>txt\<close>, with the defaults of its destructuring.\<close>

record txt_opts =
  o_size :: real
  o_weight :: string
  o_color :: string
  o_opacity :: real
  o_fixedW :: "real option"
  o_lineH :: "real option"
  o_tracking :: real
  o_align :: string
  o_decoration :: string
  o_name :: string

definition opts :: txt_opts where
  "opts = \<lparr> o_size = 16, o_weight = ''Regular'', o_color = ''#161616'', o_opacity = 1,
            o_fixedW = None, o_lineH = None, o_tracking = 0, o_align = ''LEFT'',
            o_decoration = ''NONE'', o_name = ''Text'' \<rparr>"

definition "txt" :: "nat option \<Rightarrow> string \<Rightarrow> real \<Rightarrow> real \<Rightarrow> txt_opts \<Rightarrow> (figma, nat) state" where
  "txt parent content x y os = do {
     node \<leftarrow> createText;
     assign node (\<lambda>n. n\<lparr>name := o_name os\<rparr>);
     assign node (\<lambda>n. n\<lparr>fontName :=
        \<lparr> family = ''Inter'', weight = Some (o_weight os), style = o_weight os \<rparr>\<rparr>);
     assign node (\<lambda>n. n\<lparr>fontSize := o_size os\<rparr>);
     assign node (\<lambda>n. n\<lparr>letterSpacing := \<lparr> amount = o_tracking os, unit_name = ''PIXELS'' \<rparr>\<rparr>);
     (if truthy_num (o_lineH os)
      then assign node (\<lambda>n. n\<lparr>lineHeight :=
             Some \<lparr> amount = the (o_lineH os), unit_name = ''PIXELS'' \<rparr>\<rparr>)
      else return ());
     assign node (\<lambda>n. n\<lparr>textAlignHorizontal := o_align os\<rparr>);
     (if o_decoration os \<noteq> ''NONE''
      then assign node (\<lambda>n. n\<lparr>textDecoration := o_decoration os\<rparr>)
      else return ());
     (if truthy_num (o_fixedW os)
      then do {
        assign node (\<lambda>n. n\<lparr>textAutoResize := ''HEIGHT''\<rparr>);
        resize node (the (o_fixedW os)) 40
      }
      else assign node (\<lambda>n. n\<lparr>textAutoResize := ''WIDTH_AND_HEIGHT''\<rparr>));
     set_characters node content;
     assign node (\<lambda>n. n\<lparr>fills := fill (o_color os) (o_opacity os)\<rparr>);
     assign node (\<lambda>n. n\<lparr>pos_x := x\<rparr>);
     assign node (\<lambda>n. n\<lparr>pos_y := y\<rparr>);
     (case parent of Some pr \<Rightarrow> appendChild pr node | None \<Rightarrow> return ());
     return node
   }"

definition inlineRow :: "nat \<Rightarrow> real \<Rightarrow> real \<Rightarrow> string \<Rightarrow> string \<Rightarrow> (figma, real) state" where
  "inlineRow parent x y blueStr darkStr = do {
     blue \<leftarrow> txt (Some parent) blueStr x y
       (opts\<lparr>o_size := 16, o_weight := ''Bold'', o_color := ''#005397''\<rparr>);
     blue_width \<leftarrow> read blue width;
     txt (Some parent) (''  '' @ darkStr) (x + blue_width) y
       (opts\<lparr>o_size := 16, o_weight := ''Regular'', o_color := ''#1d1d1d'', o_opacity := 0.68\<rparr>);
     return 30
   }"

definition en_dash :: string where
  "en_dash = [CHR 0xE2, CHR 0x80, CHR 0x93]"

definition btn :: "nat \<Rightarrow> string \<Rightarrow> real \<Rightarrow> real \<Rightarrow> string \<Rightarrow> string \<Rightarrow> (figma, nat) state" where
  "btn parent label x y borderHex textHex = do {
     let W = 164;
     let H = 52;
     f \<leftarrow> createFrame;
     assign f (\<lambda>n. n\<lparr>name := ''Button '' @ en_dash @ '' '' @ label\<rparr>);
     resize f W H;
     assign f (\<lambda>n. n\<lparr>pos_x := x\<rparr>);
     assign f (\<lambda>n. n\<lparr>pos_y := y\<rparr>);
     assign f (\<lambda>n. n\<lparr>fills := noFill\<rparr>);
     assign f (\<lambda>n. n\<lparr>strokes :=
        [\<lparr> paint_type = ''SOLID'', paint_color = rgb borderHex, paint_opacity = None \<rparr>]\<rparr>);
     assign f (\<lambda>n. n\<lparr>strokeWeight := 2\<rparr>);
     assign f (\<lambda>n. n\<lparr>strokeAlign := ''INSIDE''\<rparr>);
     assign f (\<lambda>n. n\<lparr>clipsContent := False\<rparr>);
     appendChild parent f;
     t \<leftarrow> createText;
     assign t (\<lambda>n. n\<lparr>fontName := \<lparr> family = ''Inter'', weight = None, style = ''Medium'' \<rparr>\<rparr>);
     assign t (\<lambda>n. n\<lparr>fontSize := 14\<rparr>);
     assign t (\<lambda>n. n\<lparr>letterSpacing := \<lparr> amount = 1.2, unit_name = ''PIXELS'' \<rparr>\<rparr>);
     assign t (\<lambda>n. n\<lparr>textAutoResize := ''WIDTH_AND_HEIGHT''\<rparr>);
     set_characters t label;
     assign t (\<lambda>n. n\<lparr>fills := fill textHex 1\<rparr>);
     t_width \<leftarrow> read t width;
     assign t (\<lambda>n. n\<lparr>pos_x := (W - t_width) / 2\<rparr>);
     t_height \<leftarrow> read t height;
     assign t (\<lambda>n. n\<lparr>pos_y := (H - t_height) / 2\<rparr>);
     appendChild f t;
     return f
   }"

subsection \<open>The constants of \<^verbatim>\<open>build\<close>\<close>

definition FW :: real where
  "FW = 1440"

definition GW :: real where
  "GW = 1200"

definition GX :: real where
  "GX = (FW - GW) / 2"

definition COL :: real where
  "COL = GW / 2"

definition HERO_H :: real where
  "HERO_H = 960"

definition ROW_H :: "real list" where
  "ROW_H = [650, 700, 698]"

definition PROJ_TOTAL :: real where
  "PROJ_TOTAL = 80 + 120 + ROW_H ! 0 + 40 + ROW_H ! 1 + 40 + ROW_H ! 2 + 80"

subsection \<open>The hero section, lines 148 to 236\<close>

text \<open>
  \<^verbatim>\<open>build\<close> is one long function. It is cut here at its own banners into the three
  sections; each part takes the locals it reads (the root frame and the running \<open>Y\<close>).
\<close>

fun hamburger_bars :: "nat \<Rightarrow> real list \<Rightarrow> (figma, unit) state" where
  "hamburger_bars ham [] = return ()"
| "hamburger_bars ham (ly # lys) = do {
     bar \<leftarrow> createRectangle;
     resize bar 32 2;
     assign bar (\<lambda>n. n\<lparr>pos_x := 14\<rparr>);
     assign bar (\<lambda>n. n\<lparr>pos_y := ly\<rparr>);
     assign bar (\<lambda>n. n\<lparr>fills := fill ''#FEFEFE'' 1\<rparr>);
     appendChild ham bar;
     hamburger_bars ham lys
   }"

text \<open>
  The row of social icons, written twice in the script with the same body (lines 207
  to 213 and 423 to 429): \<open>ix\<close> is the running x, advanced by 48 per icon.
\<close>

fun icons :: "nat \<Rightarrow> real \<Rightarrow> real \<Rightarrow> string list \<Rightarrow> (figma, unit) state" where
  "icons parent ix iy [] = return ()"
| "icons parent ix iy (lbl # lbls) = do {
     ic \<leftarrow> createRectangle;
     assign ic (\<lambda>n. n\<lparr>name := lbl\<rparr>);
     resize ic 24 24;
     assign ic (\<lambda>n. n\<lparr>pos_x := ix\<rparr>);
     assign ic (\<lambda>n. n\<lparr>pos_y := iy\<rparr>);
     assign ic (\<lambda>n. n\<lparr>fills := fill ''#161616'' 1\<rparr>);
     assign ic (\<lambda>n. n\<lparr>cornerRadius := 4\<rparr>);
     appendChild parent ic;
     icons parent (ix + 48) iy lbls
   }"

definition hero_copy :: string where
  "hero_copy =
     ''I'm Catalin Sandru a Product designer born in Romania, currently living in Bucharest, and working as an in-house designer.\<newline>''
     @ ''Strengths '' @ en_dash @ '' website and app design.\<newline>''
     @ ''Co-founder of Places2Go.co\<newline>''
     @ ''If you want to know more about me, my work or if you're a Nigerian prince who wants to offer me a lot of money, feel free to contact me on hi[at]catasandru.com''"

definition hero_section :: "nat \<Rightarrow> real \<Rightarrow> (figma, unit) state" where
  "hero_section root_frame Y = do {
     hero \<leftarrow> frame (Some root_frame) 0 Y FW HERO_H None (''Section '' @ en_dash @ '' Hero'');
     assign hero (\<lambda>n. n\<lparr>clipsContent := True\<rparr>);
     rect hero 0 0 FW HERO_H ''#1a1208'' 1 ''Video BG'';
     ov \<leftarrow> createRectangle;
     assign ov (\<lambda>n. n\<lparr>name := ''White Overlay''\<rparr>);
     resize ov FW HERO_H;
     assign ov (\<lambda>n. n\<lparr>fills :=
        [\<lparr> paint_type = ''SOLID'',
            paint_color = \<lparr> chan_r = Num 1, chan_g = Num 1, chan_b = Num 1 \<rparr>,
            paint_opacity = Some 0.7 \<rparr>]\<rparr>);
     appendChild hero ov;
     let hamX = FW - Math_round (FW * 0.05) - 60;
     ham \<leftarrow> frame (Some hero) hamX 0 60 60 (Some ''#161616'') ''Hamburger'';
     hamburger_bars ham [19, 29, 39];
     rect hero 20 20 40 40 ''#161616'' 1 ''Logo Mark'';
     logoGroup \<leftarrow> frame (Some hero) 0 0 200 60 None ''Logo Label'';
     logoName \<leftarrow> txt (Some logoGroup) ''Catalin Sandru'' 0 0
       (opts\<lparr>o_size := 24, o_weight := ''Bold'', o_color := ''#161616'',
             o_decoration := ''UNDERLINE''\<rparr>);
     logoName_height \<leftarrow> read logoName height;
     txt (Some logoGroup) ''Product Designer'' 0 (logoName_height + 4)
       (opts\<lparr>o_size := 16, o_weight := ''Regular'', o_color := ''#161616''\<rparr>);
     logoName_width \<leftarrow> read logoName width;
     resize logoGroup (max logoName_width 160) 60;
     assign logoGroup (\<lambda>n. n\<lparr>rotation := - 90\<rparr>);
     assign logoGroup (\<lambda>n. n\<lparr>pos_x := - 20\<rparr>);
     logoGroup_width \<leftarrow> read logoGroup width;
     assign logoGroup (\<lambda>n. n\<lparr>pos_y :=
        Math_round (HERO_H / 2) + Math_round (logoGroup_width / 2)\<rparr>);
     let RX = FW - Math_round (FW * 0.05);
     let CY = Math_round (HERO_H / 2);
     emailNode \<leftarrow> txt (Some hero) ''hi@catasandru.com'' 0 (CY - 40)
       (opts\<lparr>o_size := 20, o_weight := ''Bold'', o_color := ''#161616'', o_name := ''Email''\<rparr>);
     emailNode_width \<leftarrow> read emailNode width;
     assign emailNode (\<lambda>n. n\<lparr>pos_x := RX - emailNode_width\<rparr>);
     emailNode_height \<leftarrow> read emailNode height;
     divLine \<leftarrow> rect hero (RX - 190) (CY - 40 + emailNode_height + 20) 190 5
       ''#161616'' 1 ''Contact Divider'';
     let iconLabels = [''Dribbble'', ''Instagram'', ''Behance'', ''Skype''];
     let ix = RX - (24 * 4 + 24 * 3);
     divLine_y \<leftarrow> read divLine pos_y;
     let iy = divLine_y + 5 + 16;
     icons hero ix iy iconLabels;
     h1 \<leftarrow> txt (Some hero) ''PRODUCT DESIGNER'' 0 (Math_round (HERO_H * 0.38))
       (opts\<lparr>o_size := 74, o_weight := ''Bold'', o_color := ''#161616'',
             o_fixedW := Some FW, o_lineH := Some 180, o_tracking := 2,
             o_align := ''CENTER'', o_name := ''Hero H1''\<rparr>);
     h1_y \<leftarrow> read h1 pos_y;
     h1_height \<leftarrow> read h1 height;
     let textY = h1_y + h1_height - 16;
     let textW = FW - 200;
     rect hero 100 textY textW 8 ''#333333'' 1 ''Hero Border'';
     txt (Some hero) hero_copy 100 (textY + 16)
       (opts\<lparr>o_size := 28, o_weight := ''SemiBold'', o_color := ''#161616'',
             o_fixedW := Some textW, o_lineH := Some 50, o_name := ''Hero Description''\<rparr>);
     return ()
   }"

subsection \<open>The projects section, lines 238 to 350\<close>

record project =
  imageLeft :: bool
  imageBg :: string
  contentBg :: string
  p_h :: real
  title :: string
  desc :: string
  role :: string
  year :: string
  btnLabel :: string
  dark :: bool

definition projects :: "project list" where
  "projects =
     [\<lparr> imageLeft = True, imageBg = ''#DDE7E7'', contentBg = ''#DDE7E7'', p_h = ROW_H ! 0,
        title = ''Places2go.co'',
        desc = ''Personal projects are usually the most complicated ones. This was not the case for Places2Go. Yeah... it actually was. A website for traveling with locals that focuses on making website interactions so easy that even grandmas understand how to use the platform.'',
        role = ''Co-Founder'', year = ''2017 - Present'', btnLabel = ''VIEW PROJECT'',
        dark = False \<rparr>,
      \<lparr> imageLeft = False, imageBg = ''#161616'', contentBg = ''#161616'', p_h = ROW_H ! 1,
        title = ''Mobile Banking App'',
        desc = ''In-house UI designer, UX and project manager '' @ en_dash @ '' my roles in this project. This meant a 360 degrees view of a behavior-learning mobile banking app.\<newline>In addition to regular banking features, savings are automatically sent to a separate account based on the clients' buying behavior and the financial goals set.'',
        role = ''Product Designer'', year = ''2017'', btnLabel = ''View Project'',
        dark = True \<rparr>,
      \<lparr> imageLeft = True, imageBg = ''#161616'', contentBg = ''#161616'', p_h = ROW_H ! 2,
        title = ''Cloudfinity Responsive App'',
        desc = ''A project that started with an idea. No features, no plans.\<newline>Lots of meetings and Skype calls, product goals and wireframes later, the project turned into a 46 pages responsive app.'',
        role = ''Product Designer'', year = ''2016 - Present'', btnLabel = ''View Project'',
        dark = True \<rparr>]"

text \<open>
  The body of the loop over the projects, lines 295 to 345. It reads the section frame,
  the grid's left edge and the column width from the enclosing function; they are its
  parameters \<open>projSec\<close>, \<open>gx\<close> and \<open>col\<close> here, and \<open>ry\<close> is the running row offset.
\<close>

definition project_row :: "nat \<Rightarrow> real \<Rightarrow> real \<Rightarrow> real \<Rightarrow> project \<Rightarrow> (figma, unit) state" where
  "project_row projSec gx col ry p = do {
     let leftBg = (if imageLeft p then imageBg p else contentBg p);
     let rightBg = (if imageLeft p then contentBg p else imageBg p);
     lCol \<leftarrow> frame (Some projSec) gx ry col (p_h p) (Some leftBg)
       (if imageLeft p then title p @ '' '' @ en_dash @ '' Image''
        else title p @ '' '' @ en_dash @ '' Content'');
     rCol \<leftarrow> frame (Some projSec) (gx + col) ry col (p_h p) (Some rightBg)
       (if imageLeft p then title p @ '' '' @ en_dash @ '' Content''
        else title p @ '' '' @ en_dash @ '' Image'');
     let imgCol = (if imageLeft p then lCol else rCol);
     txt (Some imgCol) (''[Image: '' @ title p @ '']'') (col / 2 - 80) (p_h p / 2 - 10)
       (opts\<lparr>o_size := 14, o_weight := ''Regular'',
             o_color := (if dark p then ''#555555'' else ''#888888'')\<rparr>);
     let cCol = (if imageLeft p then rCol else lCol);
     let headC = (if dark p then ''#fafefe'' else ''#161616'');
     let bodyC = (if dark p then ''#999999'' else ''#5a5a5a'');
     let listC = (if dark p then ''#cccccc'' else ''#161616'');
     let btnC = (if dark p then ''#ffffff'' else ''#161616'');
     let cX = col - 400 - Math_round (col * 0.24);
     let cY = Math_round (p_h p * 0.2);
     tNode \<leftarrow> txt (Some cCol) (title p) cX cY
       (opts\<lparr>o_size := 50, o_weight := ''Bold'', o_color := headC,
             o_fixedW := Some 400, o_lineH := Some 75, o_tracking := 1,
             o_name := ''Project Title''\<rparr>);
     tNode_height \<leftarrow> read tNode height;
     let cY = cY + (tNode_height + 24);
     dNode \<leftarrow> txt (Some cCol) (desc p) cX cY
       (opts\<lparr>o_size := 16, o_weight := ''Light'', o_color := bodyC,
             o_fixedW := Some 400, o_lineH := Some 24, o_tracking := 1,
             o_name := ''Project Description''\<rparr>);
     dNode_height \<leftarrow> read dNode height;
     let cY = cY + (dNode_height + 30);
     info \<leftarrow> frame (Some cCol) cX cY 300 56 None ''Info'';
     txt (Some info) ''My role'' 0 0
       (opts\<lparr>o_size := 17, o_weight := ''SemiBold'', o_color := listC\<rparr>);
     txt (Some info) (role p) 0 22
       (opts\<lparr>o_size := 14, o_weight := ''Regular'', o_color := listC\<rparr>);
     txt (Some info) ''Year'' 160 0
       (opts\<lparr>o_size := 17, o_weight := ''SemiBold'', o_color := listC\<rparr>);
     txt (Some info) (year p) 160 22
       (opts\<lparr>o_size := 14, o_weight := ''Regular'', o_color := listC\<rparr>);
     let cY = cY + (56 + 50);
     btn cCol (btnLabel p) cX cY btnC btnC;
     return ()
   }"

text \<open>The loop itself: after each row, \<^verbatim>\<open>ry += p.h + 40\<close>.\<close>

fun project_rows :: "nat \<Rightarrow> real \<Rightarrow> real \<Rightarrow> real \<Rightarrow> project list \<Rightarrow> (figma, real) state" where
  "project_rows projSec gx col ry [] = return ry"
| "project_rows projSec gx col ry (p # ps) = do {
     project_row projSec gx col ry p;
     project_rows projSec gx col (ry + (p_h p + 40)) ps
   }"

definition projects_section :: "nat \<Rightarrow> real \<Rightarrow> (figma, unit) state" where
  "projects_section root_frame Y = do {
     projSec \<leftarrow> frame (Some root_frame) 0 Y FW PROJ_TOTAL (Some ''#161616'')
       (''Section '' @ en_dash @ '' Projects'');
     assign projSec (\<lambda>n. n\<lparr>clipsContent := False\<rparr>);
     selH \<leftarrow> txt (Some projSec) ''Selected Projects'' GX 80
       (opts\<lparr>o_size := 74, o_weight := ''Bold'', o_color := ''#ffffff'', o_lineH := Some 111,
             o_name := ''Selected Projects''\<rparr>);
     selH_height \<leftarrow> read selH height;
     let ry = 80 + selH_height + 40;
     project_rows projSec GX COL ry projects;
     return ()
   }"

subsection \<open>The about section, lines 352 to 433\<close>

text \<open>
  The two loops over the experience and the language rows, lines 373 to 375 and 390 to
  392: the running offset of the column is advanced by what \<^verbatim>\<open>inlineRow\<close> returns.
\<close>

fun inlineRows :: "nat \<Rightarrow> real \<Rightarrow> real \<Rightarrow> (string \<times> string) list \<Rightarrow> (figma, real) state" where
  "inlineRows parent x y [] = return y"
| "inlineRows parent x y ((blueStr, darkStr) # rows) = do {
     consumed \<leftarrow> inlineRow parent x y blueStr darkStr;
     inlineRows parent x (y + consumed) rows
   }"

definition expRows :: "(string \<times> string) list" where
  "expRows =
     [(''2016 - Present'', ''Docler Holding Luxembourg''),
      (''2013 - 2016'', ''Commercial Carpatica Bank, Sibiu, Romania''),
      (''2010 - 2013'', ''Commercial Carpatica Bank, Sibiu, Romania''),
      (''2006 - 2010'', ''Freelancer'')]"

definition langRows :: "(string \<times> string) list" where
  "langRows =
     [(''English'', ''Fluent''), (''Italian'', ''Intermediate''), (''Romanian'', ''Native'')]"

text \<open>The section returns \<^verbatim>\<open>finalAboutH\<close>, which \<^verbatim>\<open>build\<close> adds to \<open>Y\<close>.\<close>

definition about_section :: "nat \<Rightarrow> real \<Rightarrow> (figma, real) state" where
  "about_section root_frame Y = do {
     aboutSec \<leftarrow> frame (Some root_frame) 0 Y FW 900 (Some ''#F5F9FC'')
       (''Section '' @ en_dash @ '' About'');
     assign aboutSec (\<lambda>n. n\<lparr>clipsContent := False\<rparr>);
     let leftY = 80;
     let rightY = 80;
     expTitle \<leftarrow> txt (Some aboutSec) ''Experience'' GX leftY
       (opts\<lparr>o_size := 64, o_weight := ''Bold'', o_color := ''#1d1d1d'', o_lineH := Some 60,
             o_name := ''Experience Heading''\<rparr>);
     expTitle_height \<leftarrow> read expTitle height;
     let leftY = leftY + (expTitle_height + 32);
     leftY \<leftarrow> inlineRows aboutSec GX leftY expRows;
     let langX = GX + COL;
     langTitle \<leftarrow> txt (Some aboutSec) ''Languages'' langX rightY
       (opts\<lparr>o_size := 64, o_weight := ''Bold'', o_color := ''#1d1d1d'', o_lineH := Some 60,
             o_name := ''Languages Heading''\<rparr>);
     langTitle_height \<leftarrow> read langTitle height;
     let rightY = rightY + (langTitle_height + 32);
     rightY \<leftarrow> inlineRows aboutSec langX rightY langRows;
     let rightY = rightY + 48;
     skillTitle \<leftarrow> txt (Some aboutSec) ''Skills'' langX rightY
       (opts\<lparr>o_size := 64, o_weight := ''Bold'', o_color := ''#1d1d1d'', o_lineH := Some 60,
             o_name := ''Skills Heading''\<rparr>);
     skillTitle_height \<leftarrow> read skillTitle height;
     let rightY = rightY + (skillTitle_height + 16);
     skillNode \<leftarrow> txt (Some aboutSec)
       ''Photoshop, Sketch, Illustrator, Lightroom.\<newline>Invision and a good understanding of front end development.''
       langX rightY
       (opts\<lparr>o_size := 16, o_weight := ''Regular'', o_color := ''#1d1d1d'',
             o_fixedW := Some (COL - 40), o_lineH := Some 30\<rparr>);
     skillNode_height \<leftarrow> read skillNode height;
     let fTopY = max leftY (rightY + skillNode_height) + 80;
     linkedinBtn \<leftarrow> btn aboutSec ''View LinkedIn'' 0 fTopY ''#161616'' ''#161616'';
     assign linkedinBtn (\<lambda>n. n\<lparr>pos_x := Math_round ((FW - 164) / 2)\<rparr>);
     let fEmailY = fTopY + 52 + 48;
     fEmail \<leftarrow> txt (Some aboutSec) ''hi@catasandru.com'' 0 fEmailY
       (opts\<lparr>o_size := 20, o_weight := ''Bold'', o_color := ''#161616'', o_align := ''CENTER'',
             o_name := ''Footer Email''\<rparr>);
     fEmail_width \<leftarrow> read fEmail width;
     assign fEmail (\<lambda>n. n\<lparr>pos_x := Math_round ((FW - fEmail_width) / 2)\<rparr>);
     fEmail_height \<leftarrow> read fEmail height;
     let fDivY = fEmailY + fEmail_height + 16;
     rect aboutSec (Math_round ((FW - 190) / 2)) fDivY 190 5 ''#161616'' 1 ''Footer Divider'';
     let fSocialY = fDivY + 5 + 16;
     let fIconX = Math_round ((FW - (24 * 4 + 24 * 3)) / 2);
     icons aboutSec fIconX fSocialY [''Dribbble'', ''Instagram'', ''Behance'', ''Skype''];
     let finalAboutH = fSocialY + 24 + 80;
     resize aboutSec FW finalAboutH;
     return finalAboutH
   }"

subsection \<open>\<^verbatim>\<open>build\<close> and its caller, lines 134 to 444\<close>

definition build :: "(figma, unit) state" where
  "build = do {
     loadAllFonts;
     root_frame \<leftarrow> frame None 0 0 FW 100 (Some ''#ffffff'')
       (''Portfolio '' @ en_dash @ '' Catalin Sandru'');
     page_appendChild root_frame;
     let Y = 0;
     hero_section root_frame Y;
     let Y = Y + HERO_H;
     projects_section root_frame Y;
     let Y = Y + PROJ_TOTAL;
     finalAboutH \<leftarrow> about_section root_frame Y;
     let Y = Y + finalAboutH;
     resize root_frame FW Y;
     scrollAndZoomIntoView [root_frame];
     closePlugin ''Portfolio design created!''
   }"

text \<open>
  \<^verbatim>\<open>promise.catch(handler)\<close>: when the body ended with an exception pending, the
  handler runs with it (and the exception is no longer pending); otherwise nothing
  more happens. An exception raised inside the handler is left pending.
\<close>

definition catch :: "(figma, unit) state \<Rightarrow> (js_error \<Rightarrow> (figma, unit) state) \<Rightarrow> (figma, unit) state" where
  "catch body handler = do {
     body;
     fg \<leftarrow> State_Monad.get;
     (case thrown fg of
        None \<Rightarrow> return ()
      | Some err \<Rightarrow> do { State_Monad.set (fg\<lparr>thrown := None\<rparr>); handler err })
   }"

definition main :: "(figma, unit) state" where
  "main = catch build (\<lambda>err. closePlugin (''Error: '' @ message err))"

section \<open>Proof support\<close>

text \<open>A host that raises no error, and a script that has not been aborted.\<close>

definition quiet :: "figma \<Rightarrow> bool" where
  "quiet fg = (thrown fg = None \<and> (\<forall>k. fault fg k = None))"

text \<open>The host after a part of the script has run from \<open>fg\<close>, and the value it returned.\<close>

definition after :: "(figma, 'a) state \<Rightarrow> figma \<Rightarrow> figma" where
  "after m fg = snd (run_state m fg)"

definition result_of :: "(figma, 'a) state \<Rightarrow> figma \<Rightarrow> 'a" where
  "result_of m fg = fst (run_state m fg)"

text \<open>
  What a fault-free call of \<^verbatim>\<open>txt\<close> and of \<^verbatim>\<open>btn\<close> leaves in the store: the nodes
  they build, as terms of their arguments (\<open>sizer\<close> is the host's \<open>text_size\<close>, \<open>proto\<close>
  the node the host creates), and the number of requests \<^verbatim>\<open>txt\<close> makes.
\<close>

definition txt_node ::
  "(string \<Rightarrow> font_name \<Rightarrow> real \<Rightarrow> length_px \<Rightarrow> length_px option \<Rightarrow> real option \<Rightarrow> real \<times> real)
   \<Rightarrow> node \<Rightarrow> string \<Rightarrow> real \<Rightarrow> real \<Rightarrow> txt_opts \<Rightarrow> node" where
  "txt_node sizer proto content x y os =
     (let n = proto\<lparr>node_type := TEXT, children := [], name := o_name os,
                fontName := \<lparr> family = ''Inter'', weight = Some (o_weight os), style = o_weight os \<rparr>,
                fontSize := o_size os,
                letterSpacing := \<lparr> amount = o_tracking os, unit_name = ''PIXELS'' \<rparr>\<rparr>;
          n = (if truthy_num (o_lineH os)
               then n\<lparr>lineHeight := Some \<lparr> amount = the (o_lineH os), unit_name = ''PIXELS'' \<rparr>\<rparr>
               else n);
          n = n\<lparr>textAlignHorizontal := o_align os\<rparr>;
          n = (if o_decoration os \<noteq> ''NONE'' then n\<lparr>textDecoration := o_decoration os\<rparr> else n);
          n = (if truthy_num (o_fixedW os)
               then n\<lparr>textAutoResize := ''HEIGHT'', width := the (o_fixedW os), height := 40\<rparr>
               else n\<lparr>textAutoResize := ''WIDTH_AND_HEIGHT''\<rparr>);
          n = relayout sizer (n\<lparr>characters := content\<rparr>)
      in n\<lparr>fills := fill (o_color os) (o_opacity os), pos_x := x, pos_y := y\<rparr>)"

definition txt_calls :: "txt_opts \<Rightarrow> nat" where
  "txt_calls os = 12 + (if truthy_num (o_lineH os) then 1 else 0) + (if o_decoration os \<noteq> ''NONE'' then 1 else 0)
      + (if truthy_num (o_fixedW os) then 1 else 0)"

definition txt_width ::
  "(string \<Rightarrow> font_name \<Rightarrow> real \<Rightarrow> length_px \<Rightarrow> length_px option \<Rightarrow> real option \<Rightarrow> real \<times> real)
   \<Rightarrow> node \<Rightarrow> string \<Rightarrow> txt_opts \<Rightarrow> real" where
  "txt_width sizer proto content os = width (txt_node sizer proto content 0 0 os)"

definition txt_height ::
  "(string \<Rightarrow> font_name \<Rightarrow> real \<Rightarrow> length_px \<Rightarrow> length_px option \<Rightarrow> real option \<Rightarrow> real \<times> real)
   \<Rightarrow> node \<Rightarrow> string \<Rightarrow> txt_opts \<Rightarrow> real" where
  "txt_height sizer proto content os = height (txt_node sizer proto content 0 0 os)"

definition btn_frame_node :: "node \<Rightarrow> string \<Rightarrow> real \<Rightarrow> real \<Rightarrow> string \<Rightarrow> nat list \<Rightarrow> node" where
  "btn_frame_node proto label x y borderHex kids =
     proto\<lparr>node_type := FRAME, name := ''Button '' @ en_dash @ '' '' @ label,
           width := 164, height := 52, pos_x := x, pos_y := y, fills := noFill,
           strokes := [\<lparr> paint_type = ''SOLID'', paint_color = rgb borderHex, paint_opacity = None \<rparr>],
           strokeWeight := 2, strokeAlign := ''INSIDE'', clipsContent := False, children := kids\<rparr>"

definition btn_text_node ::
  "(string \<Rightarrow> font_name \<Rightarrow> real \<Rightarrow> length_px \<Rightarrow> length_px option \<Rightarrow> real option \<Rightarrow> real \<times> real)
   \<Rightarrow> node \<Rightarrow> string \<Rightarrow> string \<Rightarrow> node" where
  "btn_text_node sizer proto label textHex =
     (let n = relayout sizer
                (proto\<lparr>node_type := TEXT, children := [],
                       fontName := \<lparr> family = ''Inter'', weight = None, style = ''Medium'' \<rparr>,
                       fontSize := 14,
                       letterSpacing := \<lparr> amount = 1.2, unit_name = ''PIXELS'' \<rparr>,
                       textAutoResize := ''WIDTH_AND_HEIGHT'', characters := label\<rparr>)
      in n\<lparr>fills := fill textHex 1, pos_x := (164 - width n) / 2, pos_y := (52 - height n) / 2\<rparr>)"

text \<open>
  Two sample hosts, for instances of the theorems below: an empty document whose host
  raises no error and measures a text by its length, and the same host raising
  an error at the first request it receives.
\<close>

definition blank_node :: node where
  "blank_node =
     \<lparr> node_type = RECTANGLE, name = ''Node'', pos_x = 0, pos_y = 0, width = 100, height = 100,
       rotation = 0, fills = [], strokes = [], strokeWeight = 1, strokeAlign = ''INSIDE'',
       cornerRadius = 0, clipsContent = True, children = [],
       fontName = \<lparr> family = ''Inter'', weight = None, style = ''Regular'' \<rparr>, fontSize = 12,
       letterSpacing = \<lparr> amount = 0, unit_name = ''PERCENT'' \<rparr>, lineHeight = None,
       textAlignHorizontal = ''LEFT'', textDecoration = ''NONE'',
       textAutoResize = ''WIDTH_AND_HEIGHT'', characters = [] \<rparr>"

definition sample_host :: figma where
  "sample_host =
     \<lparr> nodes = (\<lambda>_. blank_node), next_id = 0, page_children = [], loaded_fonts = [],
       viewport = [], closed_with = [], thrown = None, calls = 0, fault = (\<lambda>_. None),
       text_size = (\<lambda>content fnt sz spacing lh fixed.
          (case fixed of None \<Rightarrow> sz * of_nat (length content) / 2 | Some w \<Rightarrow> w,
           case lh of None \<Rightarrow> sz * 6 / 5 | Some l \<Rightarrow> amount l)),
       new_rectangle = blank_node, new_frame = blank_node, new_text = blank_node \<rparr>"

definition failing_host :: figma where
  "failing_host = sample_host\<lparr>fault := (\<lambda>k. if k = 0 then Some ''font unavailable'' else None)\<rparr>"

(*THEOREMS*)

section \<open>Fault-free runs of the host requests and of the helpers\<close>

text \<open>
  When the host raises no error, each request has exactly its effect, and each helper
  is one step: it allocates the next reference, stores the node it built and appends
  it to its parent.
\<close>

lemma quiet_update [simp]:
  "quiet (fg\<lparr>nodes := a\<rparr>) = quiet fg"
  "quiet (fg\<lparr>next_id := b\<rparr>) = quiet fg"
  "quiet (fg\<lparr>calls := c\<rparr>) = quiet fg"
  "quiet (fg\<lparr>page_children := d\<rparr>) = quiet fg"
  "quiet (fg\<lparr>loaded_fonts := e\<rparr>) = quiet fg"
  "quiet (fg\<lparr>viewport := f\<rparr>) = quiet fg"
  "quiet (fg\<lparr>closed_with := g\<rparr>) = quiet fg"
  by (simp_all add: quiet_def)

lemma request_quiet:
  "quiet fg \<Longrightarrow> run_state (request eff) fg = (fst (eff fg), (snd (eff fg))\<lparr>calls := calls (snd (eff fg)) + 1\<rparr>)"
  by (simp add: request_def quiet_def split_beta)

lemma create_quiet:
  "quiet fg \<Longrightarrow> run_state (create ty proto) fg =
     (next_id fg, fg\<lparr>nodes := (nodes fg)(next_id fg := (proto fg)\<lparr>node_type := ty, children := []\<rparr>),
                     next_id := Suc (next_id fg), calls := Suc (calls fg)\<rparr>)"
  by (simp add: create_def request_quiet)

lemma assign_quiet:
  "quiet fg \<Longrightarrow> run_state (assign i upd) fg =
     ((), fg\<lparr>nodes := (nodes fg)(i := upd (nodes fg i)), calls := Suc (calls fg)\<rparr>)"
  by (simp add: assign_def request_quiet)

lemma resize_quiet:
  "quiet fg \<Longrightarrow> run_state (resize i w h) fg =
     ((), fg\<lparr>nodes := (nodes fg)(i := (nodes fg i)\<lparr>width := w, height := h\<rparr>), calls := Suc (calls fg)\<rparr>)"
  by (simp add: resize_def assign_quiet)

lemma appendChild_quiet:
  "quiet fg \<Longrightarrow> run_state (appendChild parent child) fg =
     ((), fg\<lparr>nodes := (nodes fg)(parent := (nodes fg parent)\<lparr>children := children (nodes fg parent) @ [child]\<rparr>),
             calls := Suc (calls fg)\<rparr>)"
  by (simp add: appendChild_def request_quiet)

lemma read_run [simp]: "run_state (read i sel) fg = (sel (nodes fg i), fg)"
  by (simp add: read_def)

lemma page_appendChild_quiet:
  "quiet fg \<Longrightarrow> run_state (page_appendChild child) fg =
     ((), fg\<lparr>page_children := page_children fg @ [child], calls := Suc (calls fg)\<rparr>)"
  by (simp add: page_appendChild_def request_quiet)

lemma loadFontAsync_quiet:
  "quiet fg \<Longrightarrow> run_state (loadFontAsync f) fg =
     ((), fg\<lparr>loaded_fonts := loaded_fonts fg @ [f], calls := Suc (calls fg)\<rparr>)"
  by (simp add: loadFontAsync_def request_quiet)

lemma scrollAndZoomIntoView_quiet:
  "quiet fg \<Longrightarrow> run_state (scrollAndZoomIntoView ns) fg =
     ((), fg\<lparr>viewport := ns, calls := Suc (calls fg)\<rparr>)"
  by (simp add: scrollAndZoomIntoView_def request_quiet)

lemma closePlugin_quiet:
  "quiet fg \<Longrightarrow> run_state (closePlugin msg) fg =
     ((), fg\<lparr>closed_with := closed_with fg @ [msg], calls := Suc (calls fg)\<rparr>)"
  by (simp add: closePlugin_def request_quiet)

lemma set_characters_quiet:
  "quiet fg \<Longrightarrow> run_state (set_characters i content) fg =
     ((), fg\<lparr>nodes := (nodes fg)(i := relayout (text_size fg) ((nodes fg i)\<lparr>characters := content\<rparr>)),
             calls := Suc (calls fg)\<rparr>)"
  by (simp add: set_characters_def request_quiet)

lemmas prims_quiet = create_quiet createRectangle_def createFrame_def createText_def assign_quiet
  resize_quiet appendChild_quiet page_appendChild_quiet loadFontAsync_quiet
  scrollAndZoomIntoView_quiet closePlugin_quiet set_characters_quiet

lemma txt_quiet:
  "quiet fg \<Longrightarrow> parent \<noteq> next_id fg \<Longrightarrow> run_state (txt (Some parent) content x y os) fg =
    (next_id fg, fg\<lparr>nodes := (nodes fg)
             (next_id fg := txt_node (text_size fg) (new_text fg) content x y os,
              parent := nodes fg parent \<lparr>children := children (nodes fg parent) @ [next_id fg]\<rparr>),
           next_id := Suc (next_id fg),
           calls := calls fg + txt_calls os\<rparr>)"
  by (simp add: txt_def txt_node_def txt_calls_def prims_quiet Let_def)

lemma txt_node_fields [simp]:
  "width (txt_node sizer proto content x y os) = txt_width sizer proto content os"
  "height (txt_node sizer proto content x y os) = txt_height sizer proto content os"
  "pos_x (txt_node sizer proto content x y os) = x"
  "pos_y (txt_node sizer proto content x y os) = y"
  "name (txt_node sizer proto content x y os) = o_name os"
  "children (txt_node sizer proto content x y os) = []"
  "characters (txt_node sizer proto content x y os) = content"
  "textAlignHorizontal (txt_node sizer proto content x y os) = o_align os"
  by (simp_all add: txt_node_def txt_width_def txt_height_def relayout_def Let_def)

lemma txt_node_fixed:
  "truthy_num (o_fixedW os) \<Longrightarrow> textAutoResize (txt_node sizer proto content x y os) = ''HEIGHT''"
  "truthy_num (o_fixedW os) \<Longrightarrow> txt_width sizer proto content os = the (o_fixedW os)"
  by (simp_all add: txt_node_def txt_width_def txt_height_def relayout_def Let_def)

lemma rect_quiet:
  "quiet fg \<Longrightarrow> parent \<noteq> next_id fg \<Longrightarrow> run_state (rect parent x y w h hex opacity nm) fg =
    (next_id fg, fg\<lparr>nodes := (nodes fg)
             (next_id fg :=
                new_rectangle fg
                \<lparr>node_type := RECTANGLE, children := [], name := nm, pos_x := x, pos_y := y,
                   width := w, height := h, fills := fill hex opacity\<rparr>,
              parent := nodes fg parent \<lparr>children := children (nodes fg parent) @ [next_id fg]\<rparr>),
           next_id := Suc (next_id fg),
           calls := calls fg + 7\<rparr>)"
  by (simp add: rect_def prims_quiet Let_def)

lemma frame_quiet:
  "quiet fg \<Longrightarrow> parent \<noteq> next_id fg \<Longrightarrow> run_state (frame (Some parent) x y w h hex nm) fg =
    (next_id fg, fg\<lparr>nodes := (nodes fg)
             (next_id fg :=
                new_frame fg
                \<lparr>node_type := FRAME, children := [], name := nm, pos_x := x, pos_y := y,
                   width := w, height := h, fills := (if truthy_str hex then fill (the hex) 1 else noFill),
                   clipsContent := False\<rparr>,
              parent := nodes fg parent \<lparr>children := children (nodes fg parent) @ [next_id fg]\<rparr>),
           next_id := Suc (next_id fg),
           calls := calls fg + 8\<rparr>)"
  by (simp add: frame_def prims_quiet Let_def)

lemma frame_root_quiet:
  "quiet fg \<Longrightarrow> run_state (frame None x y w h hex nm) fg =
    (next_id fg, fg\<lparr>nodes := (nodes fg)
             (next_id fg :=
                new_frame fg
                \<lparr>node_type := FRAME, children := [], name := nm, pos_x := x, pos_y := y,
                   width := w, height := h, fills := (if truthy_str hex then fill (the hex) 1 else noFill),
                   clipsContent := False\<rparr>),
           next_id := Suc (next_id fg),
           calls := calls fg + 7\<rparr>)"
  by (simp add: frame_def prims_quiet Let_def)

lemmas helpers_quiet = txt_quiet rect_quiet frame_quiet frame_root_quiet

lemma btn_quiet:
  "quiet fg \<Longrightarrow> parent \<noteq> next_id fg \<Longrightarrow> parent \<noteq> Suc (next_id fg) \<Longrightarrow>
   run_state (btn parent label x y borderHex textHex) fg =
    (next_id fg, fg\<lparr>nodes := (nodes fg)
             (parent := nodes fg parent \<lparr>children := children (nodes fg parent) @ [next_id fg]\<rparr>,
              Suc (next_id fg) := btn_text_node (text_size fg) (new_text fg) label textHex,
              next_id fg := btn_frame_node (new_frame fg) label x y borderHex [Suc (next_id fg)]),
           next_id := Suc (Suc (next_id fg)),
           calls := calls fg + 21\<rparr>)"
  by (simp add: btn_def btn_frame_node_def btn_text_node_def prims_quiet Let_def relayout_def)

lemma btn_frame_node_fields [simp]:
  "pos_x (btn_frame_node proto label x y borderHex kids) = x"
  "pos_y (btn_frame_node proto label x y borderHex kids) = y"
  "width (btn_frame_node proto label x y borderHex kids) = 164"
  "height (btn_frame_node proto label x y borderHex kids) = 52"
  "children (btn_frame_node proto label x y borderHex kids) = kids"
  by (simp_all add: btn_frame_node_def)

lemma FW_truthy [simp]: "truthy_num (Some FW)"
  by (simp add: truthy_num_def FW_def)

section \<open>Fault-free runs of the three sections\<close>

text \<open>
  Each section is run once, symbolically, from an arbitrary host state \<open>fg\<close> whose host
  raises no error; \<open>rt\<close> is the root frame, created earlier. The section's frame gets
  the next reference \<open>next_id fg\<close> and the nodes inside it the following ones, in
  the order of the script. Nodes that exist already are left as they are, except that
  the root gains the section as a child. (The string literals are named first: they
  play no part in the evaluation.)
\<close>

lemma hero_section_run:
  assumes "quiet fg" "rt < next_id fg"
  shows "case run_state (hero_section rt Y) fg of (u, S) \<Rightarrow>
     quiet S \<and> next_id S = next_id fg + 20
     \<and> (\<forall>i. i < next_id fg \<longrightarrow> i \<noteq> rt \<longrightarrow> nodes S i = nodes fg i)
     \<and> nodes S rt = (nodes fg rt)\<lparr>children := children (nodes fg rt) @ [next_id fg]\<rparr>
     \<and> name (nodes S (next_id fg)) = ''Section '' @ en_dash @ '' Hero''
     \<and> pos_x (nodes S (next_id fg)) = 0 \<and> pos_y (nodes S (next_id fg)) = Y
     \<and> width (nodes S (next_id fg)) = FW \<and> height (nodes S (next_id fg)) = HERO_H
     \<and> next_id fg + 17 \<in> set (children (nodes S (next_id fg)))
     \<and> name (nodes S (next_id fg + 17)) = ''Hero H1''
     \<and> characters (nodes S (next_id fg + 17)) = ''PRODUCT DESIGNER''
     \<and> pos_x (nodes S (next_id fg + 17)) = 0
     \<and> textAlignHorizontal (nodes S (next_id fg + 17)) = ''CENTER''
     \<and> textAutoResize (nodes S (next_id fg + 17)) = ''HEIGHT''
     \<and> width (nodes S (next_id fg + 17)) = FW"
proof -
  define s0 where "s0 = ''If you want to know more about me, my work or if you're a Nigerian prince who wants to offer me a lot of money, feel free to contact me on hi[at]catasandru.com''"
  define s1 where "s1 = ''I'm Catalin Sandru a Product designer born in Romania, currently living in Bucharest, and working as an in-house designer.\<newline>''"
  define s2 where "s2 = ''Co-founder of Places2Go.co\<newline>''"
  define s3 where "s3 = '' website and app design.\<newline>''"
  define s4 where "s4 = ''hi@catasandru.com''"
  define s5 where "s5 = ''Hero Description''"
  define s6 where "s6 = ''PRODUCT DESIGNER''"
  define s7 where "s7 = ''Product Designer''"
  define s8 where "s8 = ''Contact Divider''"
  define s9 where "s9 = ''Catalin Sandru''"
  define s10 where "s10 = ''White Overlay''"
  define s11 where "s11 = ''Hero Border''"
  define s12 where "s12 = ''Logo Label''"
  define s13 where "s13 = ''Strengths ''"
  define s14 where "s14 = ''Hamburger''"
  define s15 where "s15 = ''Instagram''"
  define s16 where "s16 = ''Logo Mark''"
  define s17 where "s17 = ''UNDERLINE''"
  define s18 where "s18 = ''Dribbble''"
  define s19 where "s19 = ''Section ''"
  define s20 where "s20 = ''SemiBold''"
  define s21 where "s21 = ''Video BG''"
  define s22 where "s22 = ''#161616''"
  define s23 where "s23 = ''#1a1208''"
  define s24 where "s24 = ''#333333''"
  define s25 where "s25 = ''#FEFEFE''"
  define s26 where "s26 = ''Behance''"
  define s27 where "s27 = ''Hero H1''"
  define s28 where "s28 = ''Regular''"
  define s29 where "s29 = ''CENTER''"
  define s30 where "s30 = '' Hero''"
  define s31 where "s31 = ''Email''"
  define s32 where "s32 = ''SOLID''"
  define s33 where "s33 = ''Skype''"
  define s34 where "s34 = ''Bold''"
  show ?thesis
    unfolding hero_section_def icons.simps hamburger_bars.simps
    unfolding s20_def[symmetric]
    unfolding s0_def[symmetric] s1_def[symmetric] s2_def[symmetric] s3_def[symmetric] s4_def[symmetric] s5_def[symmetric] s6_def[symmetric] s7_def[symmetric] s8_def[symmetric] s9_def[symmetric] s10_def[symmetric] s11_def[symmetric] s12_def[symmetric] s13_def[symmetric] s14_def[symmetric] s15_def[symmetric] s16_def[symmetric] s17_def[symmetric] s18_def[symmetric] s19_def[symmetric] s21_def[symmetric] s22_def[symmetric] s23_def[symmetric] s24_def[symmetric] s25_def[symmetric] s26_def[symmetric] s27_def[symmetric] s28_def[symmetric] s29_def[symmetric] s30_def[symmetric] s31_def[symmetric] s32_def[symmetric] s33_def[symmetric] s34_def[symmetric]
    using assms
    by (simp add: helpers_quiet btn_quiet prims_quiet Let_def txt_node_fixed)
qed

lemma hero_section_after:
  assumes "quiet fg" "rt < next_id fg"
  shows "quiet (after (hero_section rt Y) fg)"
    and "next_id (after (hero_section rt Y) fg) = next_id fg + 20"
    and "\<And>i. i < next_id fg \<Longrightarrow> i \<noteq> rt \<Longrightarrow> nodes (after (hero_section rt Y) fg) i = nodes fg i"
    and "nodes (after (hero_section rt Y) fg) rt = (nodes fg rt)\<lparr>children := children (nodes fg rt) @ [next_id fg]\<rparr>"
    and "\<And>i. i = next_id fg \<Longrightarrow> name (nodes (after (hero_section rt Y) fg) i) = ''Section '' @ en_dash @ '' Hero''"
    and "\<And>i. i = next_id fg \<Longrightarrow> pos_x (nodes (after (hero_section rt Y) fg) i) = 0"
    and "\<And>i. i = next_id fg \<Longrightarrow> pos_y (nodes (after (hero_section rt Y) fg) i) = Y"
    and "\<And>i. i = next_id fg \<Longrightarrow> width (nodes (after (hero_section rt Y) fg) i) = FW"
    and "\<And>i. i = next_id fg \<Longrightarrow> height (nodes (after (hero_section rt Y) fg) i) = HERO_H"
    and "\<And>i. i = next_id fg \<Longrightarrow> next_id fg + 17 \<in> set (children (nodes (after (hero_section rt Y) fg) i))"
    and "\<And>i. i = next_id fg + 17 \<Longrightarrow> name (nodes (after (hero_section rt Y) fg) i) = ''Hero H1''"
    and "\<And>i. i = next_id fg + 17 \<Longrightarrow> characters (nodes (after (hero_section rt Y) fg) i) = ''PRODUCT DESIGNER''"
    and "\<And>i. i = next_id fg + 17 \<Longrightarrow> pos_x (nodes (after (hero_section rt Y) fg) i) = 0"
    and "\<And>i. i = next_id fg + 17 \<Longrightarrow> textAlignHorizontal (nodes (after (hero_section rt Y) fg) i) = ''CENTER''"
    and "\<And>i. i = next_id fg + 17 \<Longrightarrow> textAutoResize (nodes (after (hero_section rt Y) fg) i) = ''HEIGHT''"
    and "\<And>i. i = next_id fg + 17 \<Longrightarrow> width (nodes (after (hero_section rt Y) fg) i) = FW"
  using hero_section_run [OF assms, of Y]
  by (simp_all add: after_def result_of_def split_beta)

lemma projects_section_run:
  assumes "quiet fg" "rt < next_id fg"
  shows "case run_state (projects_section rt Y) fg of (u, S) \<Rightarrow>
     quiet S \<and> next_id S = next_id fg + 38
     \<and> (\<forall>i. i < next_id fg \<longrightarrow> i \<noteq> rt \<longrightarrow> nodes S i = nodes fg i)
     \<and> nodes S rt = (nodes fg rt)\<lparr>children := children (nodes fg rt) @ [next_id fg]\<rparr>
     \<and> name (nodes S (next_id fg)) = ''Section '' @ en_dash @ '' Projects''
     \<and> pos_x (nodes S (next_id fg)) = 0 \<and> pos_y (nodes S (next_id fg)) = Y
     \<and> width (nodes S (next_id fg)) = FW \<and> height (nodes S (next_id fg)) = PROJ_TOTAL
     \<and> children (nodes S (next_id fg)) =
         [next_id fg + 1, next_id fg + 2, next_id fg + 3, next_id fg + 14, next_id fg + 15,
          next_id fg + 26, next_id fg + 27]
     \<and> pos_x (nodes S (next_id fg + 2)) = GX \<and> width (nodes S (next_id fg + 2)) = COL
     \<and> pos_x (nodes S (next_id fg + 3)) = GX + COL \<and> width (nodes S (next_id fg + 3)) = COL
     \<and> pos_y (nodes S (next_id fg + 2)) = pos_y (nodes S (next_id fg + 3))
     \<and> height (nodes S (next_id fg + 2)) = ROW_H ! 0 \<and> height (nodes S (next_id fg + 3)) = ROW_H ! 0
     \<and> pos_x (nodes S (next_id fg + 14)) = GX \<and> width (nodes S (next_id fg + 14)) = COL
     \<and> pos_x (nodes S (next_id fg + 15)) = GX + COL \<and> width (nodes S (next_id fg + 15)) = COL
     \<and> pos_y (nodes S (next_id fg + 14)) = pos_y (nodes S (next_id fg + 15))
     \<and> height (nodes S (next_id fg + 14)) = ROW_H ! 1 \<and> height (nodes S (next_id fg + 15)) = ROW_H ! 1
     \<and> pos_x (nodes S (next_id fg + 26)) = GX \<and> width (nodes S (next_id fg + 26)) = COL
     \<and> pos_x (nodes S (next_id fg + 27)) = GX + COL \<and> width (nodes S (next_id fg + 27)) = COL
     \<and> pos_y (nodes S (next_id fg + 26)) = pos_y (nodes S (next_id fg + 27))
     \<and> height (nodes S (next_id fg + 26)) = ROW_H ! 2 \<and> height (nodes S (next_id fg + 27)) = ROW_H ! 2"
proof -
  define s0 where "s0 = '' my roles in this project. This meant a 360 degrees view of a behavior-learning mobile banking app.\<newline>In addition to regular banking features, savings are automatically sent to a separate account based on the clients' buying behavior and the financial goals set.''"
  define s1 where "s1 = ''Personal projects are usually the most complicated ones. This was not the case for Places2Go. Yeah... it actually was. A website for traveling with locals that focuses on making website interactions so easy that even grandmas understand how to use the platform.''"
  define s2 where "s2 = ''A project that started with an idea. No features, no plans.\<newline>Lots of meetings and Skype calls, product goals and wireframes later, the project turned into a 46 pages responsive app.''"
  define s3 where "s3 = ''In-house UI designer, UX and project manager ''"
  define s4 where "s4 = ''Cloudfinity Responsive App''"
  define s5 where "s5 = ''Project Description''"
  define s6 where "s6 = ''Mobile Banking App''"
  define s7 where "s7 = ''Selected Projects''"
  define s8 where "s8 = ''Product Designer''"
  define s9 where "s9 = ''2016 - Present''"
  define s10 where "s10 = ''2017 - Present''"
  define s11 where "s11 = ''Project Title''"
  define s12 where "s12 = ''Places2go.co''"
  define s13 where "s13 = ''VIEW PROJECT''"
  define s14 where "s14 = ''View Project''"
  define s15 where "s15 = ''Co-Founder''"
  define s16 where "s16 = '' Projects''"
  define s17 where "s17 = '' Content''"
  define s18 where "s18 = ''Section ''"
  define s19 where "s19 = ''SemiBold''"
  define s20 where "s20 = ''[Image: ''"
  define s21 where "s21 = ''#161616''"
  define s22 where "s22 = ''#555555''"
  define s23 where "s23 = ''#5a5a5a''"
  define s24 where "s24 = ''#888888''"
  define s25 where "s25 = ''#999999''"
  define s26 where "s26 = ''#DDE7E7''"
  define s27 where "s27 = ''#cccccc''"
  define s28 where "s28 = ''#fafefe''"
  define s29 where "s29 = ''#ffffff''"
  define s30 where "s30 = ''My role''"
  define s31 where "s31 = ''Regular''"
  define s32 where "s32 = '' Image''"
  define s33 where "s33 = ''Light''"
  define s34 where "s34 = ''2017''"
  define s35 where "s35 = ''Bold''"
  define s36 where "s36 = ''Info''"
  define s37 where "s37 = ''Year''"
  define s38 where "s38 = '' ''"
  define s39 where "s39 = '']''"
  show ?thesis
    unfolding projects_section_def projects_def project_rows.simps project_row_def
    unfolding s3_def[symmetric] s7_def[symmetric] s18_def[symmetric] s19_def[symmetric] s20_def[symmetric]
    unfolding s0_def[symmetric] s1_def[symmetric] s2_def[symmetric] s4_def[symmetric] s5_def[symmetric] s6_def[symmetric] s8_def[symmetric] s9_def[symmetric] s10_def[symmetric] s11_def[symmetric] s12_def[symmetric] s13_def[symmetric] s14_def[symmetric] s15_def[symmetric] s16_def[symmetric] s17_def[symmetric] s21_def[symmetric] s22_def[symmetric] s23_def[symmetric] s24_def[symmetric] s25_def[symmetric] s26_def[symmetric] s27_def[symmetric] s28_def[symmetric] s29_def[symmetric] s30_def[symmetric] s31_def[symmetric] s32_def[symmetric] s33_def[symmetric] s34_def[symmetric] s35_def[symmetric] s36_def[symmetric] s37_def[symmetric] s38_def[symmetric] s39_def[symmetric]
    using assms
    by (simp add: helpers_quiet btn_quiet prims_quiet Let_def txt_node_fixed)
qed

lemma projects_section_after:
  assumes "quiet fg" "rt < next_id fg"
  shows "quiet (after (projects_section rt Y) fg)"
    and "next_id (after (projects_section rt Y) fg) = next_id fg + 38"
    and "\<And>i. i < next_id fg \<Longrightarrow> i \<noteq> rt \<Longrightarrow> nodes (after (projects_section rt Y) fg) i = nodes fg i"
    and "nodes (after (projects_section rt Y) fg) rt = (nodes fg rt)\<lparr>children := children (nodes fg rt) @ [next_id fg]\<rparr>"
    and "\<And>i. i = next_id fg \<Longrightarrow> name (nodes (after (projects_section rt Y) fg) i) = ''Section '' @ en_dash @ '' Projects''"
    and "\<And>i. i = next_id fg \<Longrightarrow> pos_x (nodes (after (projects_section rt Y) fg) i) = 0"
    and "\<And>i. i = next_id fg \<Longrightarrow> pos_y (nodes (after (projects_section rt Y) fg) i) = Y"
    and "\<And>i. i = next_id fg \<Longrightarrow> width (nodes (after (projects_section rt Y) fg) i) = FW"
    and "\<And>i. i = next_id fg \<Longrightarrow> height (nodes (after (projects_section rt Y) fg) i) = PROJ_TOTAL"
    and "\<And>i. i = next_id fg \<Longrightarrow> children (nodes (after (projects_section rt Y) fg) i) =
         [next_id fg + 1, next_id fg + 2, next_id fg + 3, next_id fg + 14, next_id fg + 15,
          next_id fg + 26, next_id fg + 27]"
    and "\<And>i. i = next_id fg + 2 \<Longrightarrow> pos_x (nodes (after (projects_section rt Y) fg) i) = GX"
    and "\<And>i. i = next_id fg + 2 \<Longrightarrow> width (nodes (after (projects_section rt Y) fg) i) = COL"
    and "\<And>i. i = next_id fg + 2 \<Longrightarrow> height (nodes (after (projects_section rt Y) fg) i) = ROW_H ! 0"
    and "\<And>i. i = next_id fg + 3 \<Longrightarrow> pos_x (nodes (after (projects_section rt Y) fg) i) = GX + COL"
    and "\<And>i. i = next_id fg + 3 \<Longrightarrow> width (nodes (after (projects_section rt Y) fg) i) = COL"
    and "\<And>i. i = next_id fg + 3 \<Longrightarrow> height (nodes (after (projects_section rt Y) fg) i) = ROW_H ! 0"
    and "\<And>i. i = next_id fg + 3 \<Longrightarrow> pos_y (nodes (after (projects_section rt Y) fg) i) = pos_y (nodes (after (projects_section rt Y) fg) (next_id fg + 2))"
    and "\<And>i. i = next_id fg + 14 \<Longrightarrow> pos_x (nodes (after (projects_section rt Y) fg) i) = GX"
    and "\<And>i. i = next_id fg + 14 \<Longrightarrow> width (nodes (after (projects_section rt Y) fg) i) = COL"
    and "\<And>i. i = next_id fg + 14 \<Longrightarrow> height (nodes (after (projects_section rt Y) fg) i) = ROW_H ! 1"
    and "\<And>i. i = next_id fg + 15 \<Longrightarrow> pos_x (nodes (after (projects_section rt Y) fg) i) = GX + COL"
    and "\<And>i. i = next_id fg + 15 \<Longrightarrow> width (nodes (after (projects_section rt Y) fg) i) = COL"
    and "\<And>i. i = next_id fg + 15 \<Longrightarrow> height (nodes (after (projects_section rt Y) fg) i) = ROW_H ! 1"
    and "\<And>i. i = next_id fg + 15 \<Longrightarrow> pos_y (nodes (after (projects_section rt Y) fg) i) = pos_y (nodes (after (projects_section rt Y) fg) (next_id fg + 14))"
    and "\<And>i. i = next_id fg + 26 \<Longrightarrow> pos_x (nodes (after (projects_section rt Y) fg) i) = GX"
    and "\<And>i. i = next_id fg + 26 \<Longrightarrow> width (nodes (after (projects_section rt Y) fg) i) = COL"
    and "\<And>i. i = next_id fg + 26 \<Longrightarrow> height (nodes (after (projects_section rt Y) fg) i) = ROW_H ! 2"
    and "\<And>i. i = next_id fg + 27 \<Longrightarrow> pos_x (nodes (after (projects_section rt Y) fg) i) = GX + COL"
    and "\<And>i. i = next_id fg + 27 \<Longrightarrow> width (nodes (after (projects_section rt Y) fg) i) = COL"
    and "\<And>i. i = next_id fg + 27 \<Longrightarrow> height (nodes (after (projects_section rt Y) fg) i) = ROW_H ! 2"
    and "\<And>i. i = next_id fg + 27 \<Longrightarrow> pos_y (nodes (after (projects_section rt Y) fg) i) = pos_y (nodes (after (projects_section rt Y) fg) (next_id fg + 26))"
  using projects_section_run [OF assms, of Y]
  by (simp_all add: after_def result_of_def split_beta)

lemma about_section_run:
  assumes "quiet fg" "rt < next_id fg"
  shows "case run_state (about_section rt Y) fg of (v, S) \<Rightarrow>
     quiet S \<and> next_id S = next_id fg + 27
     \<and> (\<forall>i. i < next_id fg \<longrightarrow> i \<noteq> rt \<longrightarrow> nodes S i = nodes fg i)
     \<and> nodes S rt = (nodes fg rt)\<lparr>children := children (nodes fg rt) @ [next_id fg]\<rparr>
     \<and> name (nodes S (next_id fg)) = ''Section '' @ en_dash @ '' About''
     \<and> pos_x (nodes S (next_id fg)) = 0 \<and> pos_y (nodes S (next_id fg)) = Y
     \<and> width (nodes S (next_id fg)) = FW \<and> height (nodes S (next_id fg)) = v"
proof -
  define s0 where "s0 = ''Photoshop, Sketch, Illustrator, Lightroom.\<newline>Invision and a good understanding of front end development.''"
  define s1 where "s1 = ''Commercial Carpatica Bank, Sibiu, Romania''"
  define s2 where "s2 = ''Docler Holding Luxembourg''"
  define s3 where "s3 = ''Experience Heading''"
  define s4 where "s4 = ''Languages Heading''"
  define s5 where "s5 = ''hi@catasandru.com''"
  define s6 where "s6 = ''2016 - Present''"
  define s7 where "s7 = ''Footer Divider''"
  define s8 where "s8 = ''Skills Heading''"
  define s9 where "s9 = ''View LinkedIn''"
  define s10 where "s10 = ''Footer Email''"
  define s11 where "s11 = ''Intermediate''"
  define s12 where "s12 = ''2006 - 2010''"
  define s13 where "s13 = ''2010 - 2013''"
  define s14 where "s14 = ''2013 - 2016''"
  define s15 where "s15 = ''Experience''"
  define s16 where "s16 = ''Freelancer''"
  define s17 where "s17 = ''Instagram''"
  define s18 where "s18 = ''Languages''"
  define s19 where "s19 = ''Dribbble''"
  define s20 where "s20 = ''Romanian''"
  define s21 where "s21 = ''Section ''"
  define s22 where "s22 = ''#005397''"
  define s23 where "s23 = ''#161616''"
  define s24 where "s24 = ''#1d1d1d''"
  define s25 where "s25 = ''#F5F9FC''"
  define s26 where "s26 = ''Behance''"
  define s27 where "s27 = ''English''"
  define s28 where "s28 = ''Italian''"
  define s29 where "s29 = ''Regular''"
  define s30 where "s30 = '' About''"
  define s31 where "s31 = ''CENTER''"
  define s32 where "s32 = ''Fluent''"
  define s33 where "s33 = ''Native''"
  define s34 where "s34 = ''Skills''"
  define s35 where "s35 = ''Skype''"
  define s36 where "s36 = ''Bold''"
  define s37 where "s37 = ''  ''"
  show ?thesis
    unfolding about_section_def expRows_def langRows_def inlineRows.simps inlineRow_def icons.simps
    unfolding s0_def[symmetric] s1_def[symmetric] s2_def[symmetric] s3_def[symmetric] s4_def[symmetric] s5_def[symmetric] s6_def[symmetric] s7_def[symmetric] s8_def[symmetric] s9_def[symmetric] s10_def[symmetric] s11_def[symmetric] s12_def[symmetric] s13_def[symmetric] s14_def[symmetric] s15_def[symmetric] s16_def[symmetric] s17_def[symmetric] s18_def[symmetric] s19_def[symmetric] s20_def[symmetric] s21_def[symmetric] s22_def[symmetric] s23_def[symmetric] s24_def[symmetric] s25_def[symmetric] s26_def[symmetric] s27_def[symmetric] s28_def[symmetric] s29_def[symmetric] s30_def[symmetric] s31_def[symmetric] s32_def[symmetric] s33_def[symmetric] s34_def[symmetric] s35_def[symmetric] s36_def[symmetric] s37_def[symmetric]
    using assms
    by (simp add: helpers_quiet btn_quiet prims_quiet Let_def txt_node_fixed)
qed

lemma about_section_after:
  assumes "quiet fg" "rt < next_id fg"
  shows "quiet (after (about_section rt Y) fg)"
    and "next_id (after (about_section rt Y) fg) = next_id fg + 27"
    and "\<And>i. i < next_id fg \<Longrightarrow> i \<noteq> rt \<Longrightarrow> nodes (after (about_section rt Y) fg) i = nodes fg i"
    and "nodes (after (about_section rt Y) fg) rt = (nodes fg rt)\<lparr>children := children (nodes fg rt) @ [next_id fg]\<rparr>"
    and "\<And>i. i = next_id fg \<Longrightarrow> name (nodes (after (about_section rt Y) fg) i) = ''Section '' @ en_dash @ '' About''"
    and "\<And>i. i = next_id fg \<Longrightarrow> pos_x (nodes (after (about_section rt Y) fg) i) = 0"
    and "\<And>i. i = next_id fg \<Longrightarrow> pos_y (nodes (after (about_section rt Y) fg) i) = Y"
    and "\<And>i. i = next_id fg \<Longrightarrow> width (nodes (after (about_section rt Y) fg) i) = FW"
    and "\<And>i. i = next_id fg \<Longrightarrow> height (nodes (after (about_section rt Y) fg) i) = result_of (about_section rt Y) fg"
  using about_section_run [OF assms, of Y]
  by (simp_all add: after_def result_of_def split_beta)

lemma section_runs:
  "run_state (hero_section rt Y) fg = ((), after (hero_section rt Y) fg)"
  "run_state (projects_section rt Y) fg = ((), after (projects_section rt Y) fg)"
  "run_state (about_section rt Y) fg =
     (result_of (about_section rt Y) fg, after (about_section rt Y) fg)"
  by (simp_all add: after_def result_of_def prod_eq_iff)

lemmas build_simps = section_runs hero_section_after projects_section_after about_section_after
  helpers_quiet prims_quiet Let_def loadAllFonts_def build_def


section \<open>The colour helper\<close>

lemma hex_digit_SomeD:
  assumes "hex_digit c \<noteq> None"
  shows "\<not> is_white_space c" "c \<noteq> CHR ''-''" "c \<noteq> CHR ''+''" "c \<noteq> CHR ''x''" "c \<noteq> CHR ''X''"
    "digit_value c < 16"
  using assms
  by (auto simp: hex_digit_def is_white_space_def digit_value_def Let_def split: if_splits)

lemma parseInt16_pair:
  assumes "hex_digit c \<noteq> None" "hex_digit d \<noteq> None"
  shows "parseInt16 [c, d] = Num (of_nat (16 * digit_value c + digit_value d))"
  using assms hex_digit_SomeD [OF assms(1)] hex_digit_SomeD [OF assms(2)]
  by (simp add: parseInt16_def hex_value_def)

lemma length_seven:
  assumes "length (str :: 'a list) = 7"
  obtains c0 c1 c2 c3 c4 c5 c6 where "str = [c0, c1, c2, c3, c4, c5, c6]"
  using assms by (auto simp: length_Suc_conv eval_nat_numeral)

lemma rgb_well_formed:
  assumes "is_hex_color str"
  shows "rgb str = \<lparr> chan_r = Num (pair_value str 1), chan_g = Num (pair_value str 3),
                      chan_b = Num (pair_value str 5) \<rparr>"
proof -
  from assms have len: "length str = 7" by (simp add: is_hex_color_def)
  then obtain c0 c1 c2 c3 c4 c5 c6 where str: "str = [c0, c1, c2, c3, c4, c5, c6]"
    by (rule length_seven)
  from assms str have d: "hex_digit c1 \<noteq> None" "hex_digit c2 \<noteq> None" "hex_digit c3 \<noteq> None"
      "hex_digit c4 \<noteq> None" "hex_digit c5 \<noteq> None" "hex_digit c6 \<noteq> None"
    by (simp_all add: is_hex_color_def)
  show ?thesis
    by (simp add: rgb_def str slice_def pair_value_def parseInt16_pair d eval_nat_numeral)
qed

lemma pair_value_unit:
  assumes "is_hex_color str" "i \<in> {1, 3, 5}"
  shows "0 \<le> pair_value str i \<and> pair_value str i \<le> 1"
proof -
  from assms(1) have len: "length str = 7" by (simp add: is_hex_color_def)
  then obtain c0 c1 c2 c3 c4 c5 c6 where str: "str = [c0, c1, c2, c3, c4, c5, c6]"
    by (rule length_seven)
  from assms(1) str have d: "hex_digit c1 \<noteq> None" "hex_digit c2 \<noteq> None" "hex_digit c3 \<noteq> None"
      "hex_digit c4 \<noteq> None" "hex_digit c5 \<noteq> None" "hex_digit c6 \<noteq> None"
    by (simp_all add: is_hex_color_def)
  have small: "digit_value (str ! i) < 16" "digit_value (str ! (i + 1)) < 16"
    using assms(2) hex_digit_SomeD(6) [OF d(1)] hex_digit_SomeD(6) [OF d(2)]
      hex_digit_SomeD(6) [OF d(3)] hex_digit_SomeD(6) [OF d(4)]
      hex_digit_SomeD(6) [OF d(5)] hex_digit_SomeD(6) [OF d(6)]
    by (auto simp: str)
  then have "16 * digit_value (str ! i) + digit_value (str ! (i + 1)) \<le> 255" by simp
  then have "(of_nat (16 * digit_value (str ! i) + digit_value (str ! (i + 1))) :: real) \<le> of_nat 255"
    by (rule of_nat_mono)
  then show ?thesis by (simp add: pair_value_def)
qed

text \<open>
  C1. The height the projects section consumes is the sum the specification writes,
  80 + 120 + 650 + 40 + 700 + 40 + 698 + 80. That sum is 2408; the specification's
  figure 1888 is not its value.
\<close>

theorem PROJ_TOTAL_is_2408:
  "PROJ_TOTAL = 80 + 120 + 650 + 40 + 700 + 40 + 698 + 80 \<and> PROJ_TOTAL = 2408"
  by (simp add: PROJ_TOTAL_def ROW_H_def)

theorem PROJ_TOTAL_not_1888: "PROJ_TOTAL \<noteq> 1888"
  by (simp add: PROJ_TOTAL_def ROW_H_def)

text \<open>
  C2. \<^verbatim>\<open>rgb\<close> checks nothing: on a string that is not \<^verbatim>\<open>#\<close> and six hexadecimal digits
  it still returns a colour (here one channel parsed from the two characters present
  and two \<^verbatim>\<open>NaN\<close> channels), where the specification's \<^verbatim>\<open>parseHexColor\<close> fails with
  \<^verbatim>\<open>InvalidColorFormat\<close>. On every string of that shape the two agree: \<^verbatim>\<open>rgb\<close> returns
  the three two-digit values over 255.
\<close>

theorem rgb_malformed_counterexample:
  "\<not> is_hex_color ''#12'' \<and> parseHexColor ''#12'' = Inl InvalidColorFormat
   \<and> rgb ''#12'' = \<lparr> chan_r = Num (18 / 255), chan_g = NaN, chan_b = NaN \<rparr>"
  by (simp add: is_hex_color_def parseHexColor_def rgb_def slice_def parseInt16_def
      hex_value_def digit_value_def hex_digit_def is_white_space_def)

theorem rgb_agrees_on_well_formed:
  "is_hex_color str \<Longrightarrow> parseHexColor str = Inr (rgb str)"
  by (simp add: parseHexColor_def rgb_well_formed)

theorem rgb_agrees_on_well_formed_witness:
  "is_hex_color ''#1a2B3c'' \<and> parseHexColor ''#1a2B3c'' = Inr (rgb ''#1a2B3c'')"
proof -
  have h: "is_hex_color ''#1a2B3c''"
    by (simp add: is_hex_color_def hex_digit_def)
  show ?thesis using h rgb_agrees_on_well_formed [OF h] by simp
qed

text \<open>
  C3. On every string made of \<^verbatim>\<open>#\<close> and six hexadecimal digits, \<^verbatim>\<open>rgb\<close> returns three
  numbers (no \<^verbatim>\<open>NaN\<close>), each between 0 and 1. The result depends on the argument
  alone: \<^verbatim>\<open>rgb\<close> reads no state of the host, which is why it is a function of the
  string here. (The exact quotient \<open>k / 255\<close> with \<open>0 \<le> k \<le> 255\<close> stands for the
  double the script computes; rounding keeps it between 0 and 1.)
\<close>

theorem rgb_unit_interval:
  assumes "is_hex_color str"
  shows "\<exists>a b c. rgb str = \<lparr> chan_r = Num a, chan_g = Num b, chan_b = Num c \<rparr>
           \<and> 0 \<le> a \<and> a \<le> 1 \<and> 0 \<le> b \<and> b \<le> 1 \<and> 0 \<le> c \<and> c \<le> 1"
  using rgb_well_formed [OF assms] pair_value_unit [OF assms, of 1]
    pair_value_unit [OF assms, of 3] pair_value_unit [OF assms, of 5]
  by simp

theorem rgb_unit_interval_witness:
  "is_hex_color ''#ff8000'' \<and>
   (\<exists>a b c. rgb ''#ff8000'' = \<lparr> chan_r = Num a, chan_g = Num b, chan_b = Num c \<rparr>
      \<and> 0 \<le> a \<and> a \<le> 1 \<and> 0 \<le> b \<and> b \<le> 1 \<and> 0 \<le> c \<and> c \<le> 1)"
proof -
  have h: "is_hex_color ''#ff8000''"
    by (simp add: is_hex_color_def hex_digit_def)
  show ?thesis using h rgb_unit_interval [OF h] by simp
qed

section \<open>The rows of the about section\<close>

lemma inlineRow_value: "fst (run_state (inlineRow parent x y blueStr darkStr) fg) = 30"
  by (simp add: inlineRow_def split_beta)

lemma inlineRows_value:
  "fst (run_state (inlineRows parent x y rows) fg) = y + 30 * real (length rows)"
proof (induction rows arbitrary: y fg)
  case Nil
  show ?case by simp
next
  case (Cons row rows)
  obtain blueStr darkStr where row: "row = (blueStr, darkStr)" by (cases row)
  show ?case
    by (simp add: row split_beta inlineRow_value Cons.IH algebra_simps)
qed

text \<open>
  C10. \<^verbatim>\<open>inlineRow\<close> returns the constant 30 whatever its strings are and whatever
  sizes the host gives the two texts it creates, so a column of rows advances the
  running offset by 30 per row: after the loop the offset is the one before plus
  30 times the number of rows. The width of the first text is only used for the x of
  the second.
\<close>

theorem inlineRow_advances_by_30:
  "fst (run_state (inlineRow parent x y blueStr darkStr) fg) = 30
   \<and> fst (run_state (inlineRows parent x y rows) fg) = y + 30 * real (length rows)"
  by (simp add: inlineRow_value inlineRows_value)

end
